theory Spec2Isabelle
  imports Main "HOL-Library.Sublist"
begin

section \<open>JavaScript values\<close>

text \<open>
  The values a caller can assign to a property. Strings and booleans are kept as they
  are; a value of any other kind (a number, an object) is represented by the text that
  \<open>String(value)\<close> yields for it.
\<close>

datatype jsval = JUndefined | JNull | JBool bool | JStr string | JOther string

fun String_js :: "jsval \<Rightarrow> string" where
  "String_js JUndefined = ''undefined''"
| "String_js JNull = ''null''"
| "String_js (JBool b) = (if b then ''true'' else ''false'')"
| "String_js (JStr s) = s"
| "String_js (JOther s) = s"

text \<open>\<open>value != null\<close>: false for \<open>null\<close> and for \<open>undefined\<close>, true otherwise.\<close>

fun not_null :: "jsval \<Rightarrow> bool" where
  "not_null JUndefined = False"
| "not_null JNull = False"
| "not_null _ = True"

text \<open>\<open>x || ""\<close> for \<open>x\<close> a string or \<open>null\<close>/\<open>undefined\<close> (\<open>None\<close>).\<close>

fun or_empty :: "string option \<Rightarrow> string" where
  "or_empty None = ''''"
| "or_empty (Some s) = (if s = '''' then '''' else s)"

definition toLowerCase_char :: "char \<Rightarrow> char" where
  "toLowerCase_char c =
     (let k = (of_char c :: nat) in if 65 \<le> k \<and> k \<le> 90 then char_of (k + 32) else c)"

definition toLowerCase :: "string \<Rightarrow> string" where
  "toLowerCase s = map toLowerCase_char s"

section \<open>The node tree\<close>

text \<open>
  The tree of the underlying DOM implementation. An element carries, in this order,
  the names of the accessor properties that \<open>enhanceElement\<close> has defined on the
  object (empty for an element that was never enhanced, such as one built by the
  parser), its tag name, its attributes and its children.
\<close>

datatype node =
    Element "string list" string "(string \<times> string) list" "node list"
  | Text string
  | CDATASection string
  | Comment string
  | ProcessingInstruction string string

fun nodeType :: "node \<Rightarrow> nat" where
  "nodeType (Element ps t ats cs) = 1"
| "nodeType (Text s) = 3"
| "nodeType (CDATASection s) = 4"
| "nodeType (ProcessingInstruction t s) = 7"
| "nodeType (Comment s) = 8"

fun nodeValue :: "node \<Rightarrow> string option" where
  "nodeValue (Element ps t ats cs) = None"
| "nodeValue (Text s) = Some s"
| "nodeValue (CDATASection s) = Some s"
| "nodeValue (ProcessingInstruction t s) = Some s"
| "nodeValue (Comment s) = Some s"

fun children_of :: "node \<Rightarrow> node list" where
  "children_of (Element ps t ats cs) = cs"
| "children_of _ = []"

fun props_of :: "node \<Rightarrow> string list" where
  "props_of (Element ps t ats cs) = ps"
| "props_of _ = []"

subsection \<open>The attribute store of an element\<close>

text \<open>
  The attribute operations belong to the DOM implementation; they follow the DOM
  contract: \<open>getAttribute\<close> answers \<open>null\<close> (\<open>None\<close>) for an absent attribute and the
  stored string otherwise, \<open>setAttribute\<close> overwrites the value of an attribute that
  exists and appends a new one otherwise, \<open>removeAttribute\<close> deletes it. Only elements
  have these methods (\<open>has_attribute_methods\<close>); on other nodes the functions below
  leave the node as it is.
\<close>

fun has_attribute_methods :: "node \<Rightarrow> bool" where
  "has_attribute_methods (Element ps t ats cs) = True"
| "has_attribute_methods _ = False"

fun attrs_of :: "node \<Rightarrow> (string \<times> string) list" where
  "attrs_of (Element ps t ats cs) = ats"
| "attrs_of _ = []"

definition getAttribute :: "node \<Rightarrow> string \<Rightarrow> string option" where
  "getAttribute elem name = map_of (attrs_of elem) name"

definition hasAttribute :: "node \<Rightarrow> string \<Rightarrow> bool" where
  "hasAttribute elem name = (getAttribute elem name \<noteq> None)"

fun attr_put :: "string \<Rightarrow> string \<Rightarrow> (string \<times> string) list \<Rightarrow> (string \<times> string) list" where
  "attr_put name v [] = [(name, v)]"
| "attr_put name v ((k, w) # ats) =
     (if k = name then (k, v) # ats else (k, w) # attr_put name v ats)"

fun setAttribute :: "node \<Rightarrow> string \<Rightarrow> string \<Rightarrow> node" where
  "setAttribute (Element ps t ats cs) name v = Element ps t (attr_put name v ats) cs"
| "setAttribute n name v = n"

fun removeAttribute :: "node \<Rightarrow> string \<Rightarrow> node" where
  "removeAttribute (Element ps t ats cs) name = Element ps t (filter (\<lambda>(k, w). k \<noteq> name) ats) cs"
| "removeAttribute n name = n"

section \<open>enhanceElement\<close>

definition syncProperties :: "string \<Rightarrow> string list" where
  "syncProperties tagName =
     (let lowerTagName = toLowerCase tagName
      in [''id''] @ (if lowerTagName = ''script'' then [''type''] else []))"

text \<open>The getter and the setter of the descriptor defined for a synced property.\<close>

definition sync_get :: "node \<Rightarrow> string \<Rightarrow> string" where
  "sync_get this prop = or_empty (getAttribute this prop)"

definition sync_set :: "node \<Rightarrow> string \<Rightarrow> jsval \<Rightarrow> node" where
  "sync_set this prop v =
     (if not_null v then setAttribute this prop (String_js v)
      else removeAttribute this prop)"

subsection \<open>textContent\<close>

text \<open>
  The \<open>textContent\<close> of the DOM implementation itself, following the DOM contract:
  the text of all descendants except comments and processing instructions.
\<close>

fun dom_textContent :: "node \<Rightarrow> string" where
  "dom_textContent (Element ps t ats cs) =
     concat (map (\<lambda>child. if nodeType child \<noteq> 7 \<and> nodeType child \<noteq> 8
                             then dom_textContent child else '''') cs)"
| "dom_textContent (Text s) = s"
| "dom_textContent (CDATASection s) = s"
| "dom_textContent (Comment s) = s"
| "dom_textContent (ProcessingInstruction t s) = s"

text \<open>
  The getter that \<open>enhanceElement\<close> defines. \<open>child.textContent\<close> of an element child
  is the child's own accessor when \<open>enhanceElement\<close> defined one on it, and the
  accessor of the DOM implementation (the parameter \<open>native\<close>) otherwise; so is the
  \<open>textContent\<close> of a node that is no element.
\<close>

fun textContent_get :: "(node \<Rightarrow> string) \<Rightarrow> node \<Rightarrow> string" where
  "textContent_get native (Element ps t ats cs) =
     foldl (\<lambda>text child.
              if nodeType child = 3 then text @ or_empty (nodeValue child)
              else if nodeType child = 1 then
                text @ or_empty (Some (if ''textContent'' \<in> set (props_of child)
                                       then textContent_get native child
                                       else native child))
              else text) '''' cs"
| "textContent_get native n = native n"

fun firstChild :: "node \<Rightarrow> node option" where
  "firstChild (Element ps t ats (c # cs)) = Some c"
| "firstChild _ = None"

text \<open>\<open>this.removeChild(this.firstChild)\<close>, for a node that has a first child.\<close>

fun removeChild_first :: "node \<Rightarrow> node" where
  "removeChild_first (Element ps t ats (c # cs)) = Element ps t ats cs"
| "removeChild_first n = n"

fun appendChild :: "node \<Rightarrow> node \<Rightarrow> node" where
  "appendChild (Element ps t ats cs) c = Element ps t ats (cs @ [c])"
| "appendChild n c = n"

text \<open>\<open>while (this.firstChild) this.removeChild(this.firstChild)\<close>\<close>

function clear_children :: "node \<Rightarrow> node" where
  "clear_children this =
     (case firstChild this of
        None \<Rightarrow> this
      | Some c \<Rightarrow> clear_children (removeChild_first this))"
  by pat_completeness auto
termination
proof (relation "measure (\<lambda>n. length (children_of n))")
  show "wf (measure (\<lambda>n. length (children_of n)))" by simp
next
  fix this :: node and c :: node
  assume "firstChild this = Some c"
  then show "(removeChild_first this, this) \<in> measure (\<lambda>n. length (children_of n))"
    by (cases this rule: firstChild.cases) simp_all
qed

declare clear_children.simps [simp del]

definition origCreateTextNode :: "string \<Rightarrow> node" where
  "origCreateTextNode data = Text data"

text \<open>The document's patched \<open>createTextNode\<close>: \<open>data || ""\<close>.\<close>

definition createTextNode :: "string option \<Rightarrow> node" where
  "createTextNode data = origCreateTextNode (or_empty data)"

definition textContent_set :: "node \<Rightarrow> jsval \<Rightarrow> node" where
  "textContent_set this v =
     (let cleared = clear_children this
      in if not_null v then appendChild cleared (createTextNode (Some (String_js v)))
         else cleared)"

subsection \<open>innerHTML and outerHTML\<close>

text \<open>\<open>text.replace(/c/g, r)\<close> for a single character \<open>c\<close>.\<close>

fun replace_all :: "char \<Rightarrow> string \<Rightarrow> string \<Rightarrow> string" where
  "replace_all c r [] = []"
| "replace_all c r (x # xs) = (if x = c then r @ replace_all c r xs else x # replace_all c r xs)"

definition escape_text :: "string \<Rightarrow> string" where
  "escape_text text =
     replace_all (CHR ''>'') ''&gt;''
       (replace_all (CHR ''<'') ''&lt;''
          (replace_all (CHR ''&'') ''&amp;'' text))"

text \<open>
  The serialization of a node (\<open>child.toString()\<close>) belongs to the DOM implementation
  and is the parameter \<open>toString\<close>.
\<close>

definition innerHTML_get :: "(node \<Rightarrow> string) \<Rightarrow> node \<Rightarrow> string" where
  "innerHTML_get toString this =
     foldl (\<lambda>html child.
              if nodeType child = 1 then html @ toString child
              else if nodeType child = 3 then html @ escape_text (or_empty (nodeValue child))
              else html) '''' (children_of this)"

definition outerHTML_get :: "(node \<Rightarrow> string) \<Rightarrow> node \<Rightarrow> string" where
  "outerHTML_get toString this = toString this"

subsection \<open>Installing the accessors\<close>

text \<open>\<open>Object.defineProperty\<close> with a configurable descriptor: defines or redefines.\<close>

definition defineProperty :: "string \<Rightarrow> string list \<Rightarrow> string list" where
  "defineProperty p props = (if p \<in> set props then props else props @ [p])"

fun with_ownProps :: "string list \<Rightarrow> node \<Rightarrow> node" where
  "with_ownProps ps' (Element ps t ats cs) = Element ps' t ats cs"
| "with_ownProps ps' n = n"

definition enhanceElement :: "(node \<Rightarrow> string) \<Rightarrow> node \<Rightarrow> string \<Rightarrow> node" where
  "enhanceElement native element tagName =
     (let synced = foldl (\<lambda>props prop. defineProperty prop props)
                         (props_of element) (syncProperties tagName);
          withText = (if native element = '''' \<and> ''textContent'' \<notin> set (props_of element)
                      then defineProperty ''textContent'' synced else synced)
      in with_ownProps
           (defineProperty ''outerHTML'' (defineProperty ''innerHTML'' withText)) element)"

definition origCreateElement :: "string \<Rightarrow> node" where
  "origCreateElement name = Element [] name [] []"

definition createElement :: "(node \<Rightarrow> string) \<Rightarrow> string \<Rightarrow> node" where
  "createElement native name = enhanceElement native (origCreateElement name) name"

section \<open>The selector-engine adapters\<close>

text \<open>
  What the selector engine may hand to an adapter function typed \<open>any\<close>: nothing
  (\<open>null\<close>), the document, or a node of its tree.
\<close>

datatype document = Document (doc_childNodes: "node list")

datatype anyNode = ANull | ADocument document | ANode node

datatype jserror = TypeError

fun any_childNodes :: "anyNode \<Rightarrow> node list" where
  "any_childNodes ANull = []"
| "any_childNodes (ADocument d) = doc_childNodes d"
| "any_childNodes (ANode n) = children_of n"

subsection \<open>The adapter of the DOM polyfill\<close>

fun isTag :: "anyNode \<Rightarrow> bool" where
  "isTag (ANode n) = (nodeType n = 1)"
| "isTag _ = False"

fun getAttributeValue :: "anyNode \<Rightarrow> string \<Rightarrow> string option" where
  "getAttributeValue (ANode elem) name =
     (if \<not> has_attribute_methods elem then None
      else (case getAttribute elem name of None \<Rightarrow> None | Some v \<Rightarrow> Some v))"
| "getAttributeValue _ name = None"

fun getChildren :: "anyNode \<Rightarrow> node list" where
  "getChildren ANull = []"
| "getChildren node =
     foldl (\<lambda>children child. if nodeType child = 1 then children @ [child] else children)
           [] (any_childNodes node)"

fun hasAttrib :: "anyNode \<Rightarrow> string \<Rightarrow> bool" where
  "hasAttrib (ANode elem) name =
     (if \<not> has_attribute_methods elem then False else hasAttribute elem name)"
| "hasAttrib _ name = False"

text \<open>
  \<open>removeSubsets\<close> asks each node whether it \<open>contains\<close> another. The method belongs
  to the DOM implementation and is a parameter: \<open>None\<close> when the nodes have no such
  method (\<open>typeof other.contains !== "function"\<close>). Nodes are compared by identity, so
  the function is stated over any type \<open>'n\<close> of node references.
\<close>

definition removeSubsets :: "('n \<Rightarrow> 'n \<Rightarrow> bool) option \<Rightarrow> 'n list \<Rightarrow> 'n list" where
  "removeSubsets contains_method nodes =
     map snd (filter (\<lambda>(i, node).
        \<not> list_ex (\<lambda>(j, other).
              i \<noteq> j \<and> (case contains_method of None \<Rightarrow> False
                                | Some contains \<Rightarrow> contains other node))
            (enumerate 0 nodes))
        (enumerate 0 nodes))"

subsection \<open>The adapter of the serializer\<close>

text \<open>
  The serializer's adapter is typed over \<open>Node\<close> and \<open>Element\<close> and has no guards: a
  call on \<open>null\<close>, or of \<open>getAttribute\<close> on a node without that method, raises.
\<close>

text \<open>\<open>x || undefined\<close> for \<open>x\<close> a string or \<open>null\<close>.\<close>

fun or_undefined :: "string option \<Rightarrow> string option" where
  "or_undefined None = None"
| "or_undefined (Some s) = (if s = '''' then None else Some s)"

fun getAttributeValue_serializer :: "anyNode \<Rightarrow> string \<Rightarrow> jserror + string option" where
  "getAttributeValue_serializer (ANode elem) name =
     (if \<not> has_attribute_methods elem then Inl TypeError
      else Inr (or_undefined (getAttribute elem name)))"
| "getAttributeValue_serializer _ name = Inl TypeError"

fun getChildren_serializer :: "anyNode \<Rightarrow> jserror + node list" where
  "getChildren_serializer ANull = Inl TypeError"
| "getChildren_serializer node = Inr (any_childNodes node)"

definition removeSubsets_serializer :: "('n \<Rightarrow> 'n \<Rightarrow> bool) option \<Rightarrow> 'n list \<Rightarrow> 'n list" where
  "removeSubsets_serializer contains_method nodes =
     map snd (filter (\<lambda>(i, node).
        \<not> list_ex (\<lambda>(j, other).
              i \<noteq> j \<and> (case contains_method of None \<Rightarrow> False
                                | Some contains \<Rightarrow> contains other node))
            (enumerate 0 nodes))
        (enumerate 0 nodes))"

subsection \<open>Node references and containment\<close>

text \<open>
  A node of a document is referred to by its position: the child indexes on the way
  from the root. \<open>contains\<close> follows the DOM contract of \<open>Node.contains\<close>: a node
  contains itself and all its descendants.
\<close>

type_synonym nodeRef = "nat list"

definition contains :: "nodeRef \<Rightarrow> nodeRef \<Rightarrow> bool" where
  "contains other node = prefix other node"

definition is_descendant_of :: "nodeRef \<Rightarrow> nodeRef \<Rightarrow> bool" where
  "is_descendant_of node other = strict_prefix other node"

text \<open>
  The result the specification describes: the nodes that are not descendants of
  another node of the sequence, in their order.
\<close>

definition spec_removeSubsets :: "nodeRef list \<Rightarrow> nodeRef list" where
  "spec_removeSubsets nodes =
     filter (\<lambda>node. \<not> list_ex (\<lambda>other. is_descendant_of node other) nodes) nodes"

section \<open>The selector-query entry points\<close>

text \<open>
  The selector engine is a parameter. \<open>selectOne selector root\<close> and
  \<open>selectAll selector root\<close> stand for the engine called with the entry point's
  adapter: \<open>Inl error\<close> when the call throws, \<open>Inr\<close> its result otherwise (for
  \<open>selectOne\<close>, \<open>None\<close> is \<open>null\<close> or \<open>undefined\<close>). The console is the list of the
  entries written by \<open>console.error\<close>.
\<close>

type_synonym 'e console = "(string \<times> 'e) list"

text \<open>\<open>result || null\<close>\<close>

fun or_null :: "node option \<Rightarrow> node option" where
  "or_null None = None"
| "or_null (Some n) = Some n"

text \<open>
  The object returned by \<open>querySelectorAll\<close>: the array of results, its \<open>item\<close>
  method and its \<open>forEach\<close> method (\<open>None\<close> for a method the object does not have).
  \<open>forEach\<close> threads a state of type \<open>'s\<close> through the calls of the callback.
\<close>

record 's nodeList =
  elems :: "node list"
  item :: "(int \<Rightarrow> node option) option"
  forEach :: "((node \<Rightarrow> nat \<Rightarrow> 's \<Rightarrow> 's) \<Rightarrow> 's \<Rightarrow> 's) option"

text \<open>\<open>results[index] || null\<close>\<close>

definition results_item :: "node list \<Rightarrow> int \<Rightarrow> node option" where
  "results_item results index =
     (if 0 \<le> index \<and> index < int (length results) then Some (results ! nat index) else None)"

text \<open>\<open>for (let i = 0; i < results.length; i++) callback.call(thisArg, results[i], i, results)\<close>\<close>

function forEach_loop :: "node list \<Rightarrow> (node \<Rightarrow> nat \<Rightarrow> 's \<Rightarrow> 's) \<Rightarrow> nat \<Rightarrow> 's \<Rightarrow> 's" where
  "forEach_loop results callback i s =
     (if i < length results
      then forEach_loop results callback (i + 1) (callback (results ! i) i s)
      else s)"
  by pat_completeness auto
termination
  by (relation "measure (\<lambda>(results, callback, i, s). length results - i)") auto

declare forEach_loop.simps [simp del]

definition make_nodeList :: "node list \<Rightarrow> 's nodeList" where
  "make_nodeList results =
     \<lparr> elems = results,
       item = Some (results_item results),
       forEach = Some (\<lambda>callback s. forEach_loop results callback 0 s) \<rparr>"

definition emptyList :: "'s nodeList" where
  "emptyList = \<lparr> elems = [], item = Some (\<lambda>index. None), forEach = Some (\<lambda>callback s. s) \<rparr>"

text \<open>A plain array: indexed access and the built-in \<open>forEach\<close>, no \<open>item\<close>.\<close>

definition plain_array :: "node list \<Rightarrow> 's nodeList" where
  "plain_array results =
     \<lparr> elems = results,
       item = None,
       forEach = Some (\<lambda>callback s. forEach_loop results callback 0 s) \<rparr>"

fun documentElement :: "document \<Rightarrow> node option" where
  "documentElement (Document cs) = find (\<lambda>n. nodeType n = 1) cs"

text \<open>\<open>doc.documentElement || doc\<close>\<close>

definition rootElement :: "document \<Rightarrow> anyNode" where
  "rootElement doc = (case documentElement doc of Some e \<Rightarrow> ANode e | None \<Rightarrow> ADocument doc)"

subsection \<open>The global document\<close>

definition document_querySelector ::
  "(string \<Rightarrow> anyNode \<Rightarrow> 'e + node option) \<Rightarrow> string \<Rightarrow> document \<Rightarrow> 'e console
     \<Rightarrow> node option \<times> 'e console" where
  "document_querySelector selectOne selector this console =
     (case selectOne selector (ADocument this) of
        Inr result \<Rightarrow> (or_null result, console)
      | Inl error \<Rightarrow> (None, console @ [(''Error in document.querySelector:'', error)]))"

definition document_querySelectorAll ::
  "(string \<Rightarrow> anyNode \<Rightarrow> 'e + node list) \<Rightarrow> string \<Rightarrow> document \<Rightarrow> 'e console
     \<Rightarrow> 's nodeList \<times> 'e console" where
  "document_querySelectorAll selectAll selector this console =
     (case selectAll selector (ADocument this) of
        Inr results \<Rightarrow> (make_nodeList results, console)
      | Inl error \<Rightarrow> (emptyList, console @ [(''Error in document.querySelectorAll:'', error)]))"

subsection \<open>The polyfill's DOMParser\<close>

definition DOMParser_querySelector ::
  "(string \<Rightarrow> anyNode \<Rightarrow> 'e + node option) \<Rightarrow> string \<Rightarrow> document \<Rightarrow> 'e console
     \<Rightarrow> node option \<times> 'e console" where
  "DOMParser_querySelector selectOne selector doc console =
     (case selectOne selector (rootElement doc) of
        Inr result \<Rightarrow> (or_null result, console)
      | Inl error \<Rightarrow> (None, console @ [(''Error in querySelector:'', error)]))"

definition DOMParser_querySelectorAll ::
  "(string \<Rightarrow> anyNode \<Rightarrow> 'e + node list) \<Rightarrow> string \<Rightarrow> document \<Rightarrow> 'e console
     \<Rightarrow> 's nodeList \<times> 'e console" where
  "DOMParser_querySelectorAll selectAll selector doc console =
     (case selectAll selector (rootElement doc) of
        Inr results \<Rightarrow> (make_nodeList results, console)
      | Inl error \<Rightarrow> (emptyList, console @ [(''Error in querySelectorAll:'', error)]))"

subsection \<open>The serializer's DOMParserEx\<close>

definition DOMParserEx_querySelector ::
  "(string \<Rightarrow> anyNode \<Rightarrow> 'e + node option) \<Rightarrow> string \<Rightarrow> document \<Rightarrow> 'e console
     \<Rightarrow> node option \<times> 'e console" where
  "DOMParserEx_querySelector selectOne selector doc console =
     (case selectOne selector (rootElement doc) of
        Inr result \<Rightarrow> (or_null result, console)
      | Inl error \<Rightarrow> (None, console @ [(''Error in querySelector:'', error)]))"

definition DOMParserEx_querySelectorAll ::
  "(string \<Rightarrow> anyNode \<Rightarrow> 'e + node list) \<Rightarrow> string \<Rightarrow> document \<Rightarrow> 'e console
     \<Rightarrow> 's nodeList \<times> 'e console" where
  "DOMParserEx_querySelectorAll selectAll selector doc console =
     (case selectAll selector (rootElement doc) of
        Inr results \<Rightarrow> (plain_array results, console)
      | Inl error \<Rightarrow> (plain_array [], console @ [(''Error in querySelectorAll:'', error)]))"

text \<open>
  What the specification calls NodeList-compatible: indexed access, \<open>item(i)\<close> and
  \<open>forEach\<close> are all there.
\<close>

definition spec_NodeList_compatible :: "'s nodeList \<Rightarrow> bool" where
  "spec_NodeList_compatible l = (item l \<noteq> None \<and> forEach l \<noteq> None)"

section \<open>The notebook serializer\<close>

text \<open>
  A cell of a notebook as the notebook library delivers it. The field \<open>pinned\<close> is a
  boolean by its type and may be missing or \<open>null\<close> in a value read from a file.
\<close>

record cell =
  cell_id :: int
  cell_value :: string
  cell_mode :: string
  cell_pinned :: jsval

record notebook =
  nb_title :: string
  nb_theme :: string
  nb_readOnly :: bool
  nb_cells :: "cell list"

datatype notebookCellKind = Markup | Code

record notebookCellData =
  cd_kind :: notebookCellKind
  cd_value :: string
  cd_languageId :: string
  cd_metadata :: cell

record notebookData =
  nd_cells :: "notebookCellData list"
  nd_metadata :: notebook

definition OBSERVABLE_TO_VSCODE_MODE_MAP :: "(string \<times> string) list" where
  "OBSERVABLE_TO_VSCODE_MODE_MAP =
     [(''md'', ''markdown''), (''js'', ''javascript''), (''ojs'', ''ojs''), (''html'', ''html''),
      (''tex'', ''tex''), (''sql'', ''sql''), (''dot'', ''dot'')]"

text \<open>\<open>content.includes(search)\<close>: \<open>search\<close> occurs in \<open>content\<close> as a substring.\<close>

fun str_includes :: "string \<Rightarrow> string \<Rightarrow> bool" where
  "str_includes [] search = (search = [])"
| "str_includes (c # cs) search = (prefix search (c # cs) \<or> str_includes cs search)"

definition isObservableKitFormat :: "string \<Rightarrow> bool" where
  "isObservableKitFormat content =
     (str_includes content ''<notebook'' \<and> str_includes content ''<!doctype html>'')"

text \<open>The body of the loop over \<open>notebook.cells\<close>.\<close>

definition cell_to_cellData :: "cell \<Rightarrow> notebookCellData" where
  "cell_to_cellData c =
     (let cellKind = (if cell_mode c = ''md'' then Markup else Code);
          language = (case map_of OBSERVABLE_TO_VSCODE_MODE_MAP (cell_mode c) of
                        None \<Rightarrow> ''javascript''
                      | Some l \<Rightarrow> if l = '''' then ''javascript'' else l);
          metadata = (if cell_pinned c = JUndefined \<or> cell_pinned c = JNull
                      then c\<lparr>cell_pinned := JBool False\<rparr> else c)
      in \<lparr> cd_kind = cellKind, cd_value = cell_value c, cd_languageId = language,
           cd_metadata = metadata \<rparr>)"

text \<open>
  \<open>deserialize\<close> of the notebook library is a parameter: \<open>Inl\<close> when it throws.
\<close>

definition deserializeObservableKitNotebook ::
  "(string \<Rightarrow> 'e + notebook) \<Rightarrow> string \<Rightarrow> 'e + notebookData" where
  "deserializeObservableKitNotebook deserialize content =
     (case deserialize content of
        Inl error \<Rightarrow> Inl error
      | Inr nb \<Rightarrow>
          Inr \<lparr> nd_cells = foldl (\<lambda>cells c. cells @ [cell_to_cellData c]) [] (nb_cells nb),
                nd_metadata = nb \<rparr>)"

text \<open>
  The outcome of an \<open>async\<close> function: the promise resolves with a value (\<open>None\<close> is
  \<open>undefined\<close>) or rejects with the error thrown.
\<close>

datatype ('e, 'a) promise = Resolved 'a | Rejected 'e

text \<open>
  The decoder of the platform (\<open>TextDecoder.decode\<close>, which does not throw) is the
  parameter \<open>decode\<close>.
\<close>

definition deserializeNotebook ::
  "('b list \<Rightarrow> string) \<Rightarrow> (string \<Rightarrow> 'e + notebook) \<Rightarrow> 'b list
     \<Rightarrow> ('e, notebookData option) promise" where
  "deserializeNotebook decode deserialize content =
     (let contentStr = decode content
      in if isObservableKitFormat contentStr
         then (case deserializeObservableKitNotebook deserialize contentStr of
                 Inl error \<Rightarrow> Rejected error
               | Inr d \<Rightarrow> Resolved (Some d))
         else Resolved None)"

section \<open>The specification's reading of innerHTML\<close>

text \<open>
  The escaping as the specification words it: every character on its own, \<open>&\<close>,
  \<open><\<close> and \<open>>\<close> replaced by their entities, every other character kept.
\<close>

definition spec_escape_char :: "char \<Rightarrow> string" where
  "spec_escape_char c =
     (if c = CHR ''&'' then ''&amp;''
      else if c = CHR ''<'' then ''&lt;''
      else if c = CHR ''>'' then ''&gt;''
      else [c])"

text \<open>What one child contributes to \<open>innerHTML\<close> according to the specification.\<close>

fun spec_child_html :: "(node \<Rightarrow> string) \<Rightarrow> node \<Rightarrow> string" where
  "spec_child_html toString (Element ps t ats cs) = toString (Element ps t ats cs)"
| "spec_child_html toString (Text s) = concat (map spec_escape_char s)"
| "spec_child_html toString _ = ''''"

section \<open>The selector engine on a single root\<close>

text \<open>
  \<open>getName\<close> of the polyfill's adapter, over the \<open>nodeName\<close> of the DOM contract.
\<close>

fun nodeName_of :: "node \<Rightarrow> string" where
  "nodeName_of (Element ps t ats cs) = t"
| "nodeName_of (Text s) = ''#text''"
| "nodeName_of (CDATASection s) = ''#cdata-section''"
| "nodeName_of (Comment s) = ''#comment''"
| "nodeName_of (ProcessingInstruction t s) = t"

fun getName :: "anyNode \<Rightarrow> string" where
  "getName (ANode elem) =
     (if nodeName_of elem \<noteq> '''' then toLowerCase (nodeName_of elem) else '''')"
| "getName (ADocument d) = toLowerCase ''#document''"
| "getName ANull = ''''"

text \<open>
  The selector engine belongs to the selector library. The entry points call it with
  one root node, not with an array of nodes; by the library's contract the engine
  then compiles the selector (which throws on an invalid selector), asks the adapter
  for the children of the root, and searches them and their descendants in document
  order for the first element that passes the compiled test. The root itself is not
  tested. \<open>findOne\<close> is that search; the compiler of selectors is the parameter
  \<open>compile\<close>, the adapter's \<open>getChildren\<close> the parameter \<open>adapter_getChildren\<close>. Below the
  root the search reads the children of the tree directly: it tests elements only,
  so both adapters show it the same candidates.
\<close>

fun findOne :: "(node \<Rightarrow> bool) \<Rightarrow> node list \<Rightarrow> node option" where
  "findOne test [] = None"
| "findOne test (Element ps t ats cs # nodes) =
     (if test (Element ps t ats cs) then Some (Element ps t ats cs)
      else (case findOne test cs of
              Some elem \<Rightarrow> Some elem
            | None \<Rightarrow> findOne test nodes))"
| "findOne test (n # nodes) = findOne test nodes"

definition engine_selectOne ::
  "(anyNode \<Rightarrow> jserror + node list) \<Rightarrow> (string \<Rightarrow> 'e + (node \<Rightarrow> bool)) \<Rightarrow> string \<Rightarrow> anyNode
     \<Rightarrow> ('e + jserror) + node option" where
  "engine_selectOne adapter_getChildren compile selector root =
     (case compile selector of
        Inl error \<Rightarrow> Inl (Inl error)
      | Inr test \<Rightarrow>
          (case adapter_getChildren root of
             Inl error \<Rightarrow> Inl (Inr error)
           | Inr candidates \<Rightarrow> Inr (findOne test candidates)))"

text \<open>
  The specification's reading of a query: the elements of the queried tree in
  document order, the root of the tree included, and the first of them that matches.
\<close>

fun elements_in_order :: "node \<Rightarrow> node list" where
  "elements_in_order (Element ps t ats cs) =
     Element ps t ats cs # concat (map elements_in_order cs)"
| "elements_in_order _ = []"

fun spec_queried_tree :: "anyNode \<Rightarrow> node list" where
  "spec_queried_tree ANull = []"
| "spec_queried_tree (ADocument d) = concat (map elements_in_order (doc_childNodes d))"
| "spec_queried_tree (ANode n) = elements_in_order n"

definition spec_first_match :: "(node \<Rightarrow> bool) \<Rightarrow> anyNode \<Rightarrow> node option" where
  "spec_first_match test root = find test (spec_queried_tree root)"

section \<open>Synced properties\<close>

lemma map_of_attr_put:
  "map_of (attr_put name v ats) k = (if k = name then Some v else map_of ats k)"
  by (induction ats) auto

lemma map_of_attr_remove:
  "map_of (filter (\<lambda>(k, w). k \<noteq> name) ats) k = (if k = name then None else map_of ats k)"
  by (induction ats) auto

lemma or_empty_case: "or_empty x = (case x of None \<Rightarrow> '''' | Some s \<Rightarrow> s)"
  by (cases x) simp_all

lemma syncProperties_set:
  "set (syncProperties tagName) =
     (if toLowerCase tagName = ''script'' then {''id'', ''type''} else {''id''})"
  by (auto simp: syncProperties_def Let_def)

lemma set_defineProperty: "set (defineProperty p props) = insert p (set props)"
  by (auto simp: defineProperty_def)

lemma set_foldl_defineProperty:
  "set (foldl (\<lambda>props prop. defineProperty prop props) props ps) = set props \<union> set ps"
  by (induction ps arbitrary: props) (auto simp: set_defineProperty)

lemma enhanceElement_shape:
  "\<exists>ps'. enhanceElement native (Element ps t ats cs) tagName = Element ps' t ats cs
      \<and> set (syncProperties tagName) \<subseteq> set ps'
      \<and> {''innerHTML'', ''outerHTML''} \<subseteq> set ps'"
  by (auto simp: enhanceElement_def Let_def set_defineProperty set_foldl_defineProperty)

text \<open>
  C1. For every enhanced element \<open>E\<close> and every synced property \<open>P\<close> defined on it
  (\<open>id\<close> for all elements, \<open>type\<close> additionally for script elements): reading \<open>E.P\<close>
  returns the value of \<open>getAttribute(P)\<close>, or the empty string when the attribute is
  absent; assigning a value \<open>v\<close> that is not null (in the sense of the test
  \<open>v != null\<close> of the code: neither \<open>null\<close> nor \<open>undefined\<close>) stores \<open>String(v)\<close> in the
  attribute, so that reading \<open>E.P\<close> afterwards yields \<open>String(v)\<close>; assigning \<open>null\<close>
  removes the attribute, so that \<open>hasAttribute(P)\<close> is false and reading \<open>E.P\<close> yields
  the empty string.
\<close>

theorem synced_property_roundtrip:
  assumes "P \<in> set (syncProperties tagName)"
    and "E = enhanceElement native (Element ps t ats cs) tagName"
  shows "P \<in> set (props_of E)
       \<and> sync_get E P = (case getAttribute E P of None \<Rightarrow> '''' | Some s \<Rightarrow> s)
       \<and> (not_null v \<longrightarrow>
            getAttribute (sync_set E P v) P = Some (String_js v)
          \<and> sync_get (sync_set E P v) P = String_js v)
       \<and> (\<not> not_null v \<longrightarrow>
            \<not> hasAttribute (sync_set E P v) P
          \<and> sync_get (sync_set E P v) P = '''')"
proof -
  obtain ps' where E: "E = Element ps' t ats cs"
    and sub: "set (syncProperties tagName) \<subseteq> set ps'"
    using enhanceElement_shape[of native ps t ats cs tagName] assms(2) by auto
  show ?thesis
    using assms(1) sub unfolding E
    by (auto simp: sync_get_def sync_set_def hasAttribute_def getAttribute_def map_of_attr_put
        map_of_attr_remove or_empty_case split: option.splits)
qed

theorem synced_property_roundtrip_witness:
  "''type'' \<in> set (syncProperties ''SCRIPT'')
   \<and> sync_get (createElement dom_textContent ''SCRIPT'') ''type'' = ''''
   \<and> sync_get (sync_set (createElement dom_textContent ''SCRIPT'') ''type'' (JStr ''observable''))
        ''type'' = ''observable''
   \<and> \<not> hasAttribute (sync_set (createElement dom_textContent ''SCRIPT'') ''type'' JNull) ''type''"
proof -
  have h: "''type'' \<in> set (syncProperties ''SCRIPT'')"
    by code_simp
  have e: "createElement dom_textContent ''SCRIPT''
             = enhanceElement dom_textContent (Element [] ''SCRIPT'' [] []) ''SCRIPT''"
    by (simp add: createElement_def origCreateElement_def)
  have g: "getAttribute (createElement dom_textContent ''SCRIPT'') ''type'' = None"
    by code_simp
  from synced_property_roundtrip[OF h e, of "JStr ''observable''"]
       synced_property_roundtrip[OF h e, of JNull] h g
  show ?thesis by simp
qed

section \<open>textContent\<close>

lemma clear_children_Element: "clear_children (Element ps t ats cs) = Element ps t ats []"
  by (induction cs) (simp_all add: clear_children.simps)

lemma textContent_set_children:
  "textContent_set (Element ps t ats cs) v =
     Element ps t ats (if not_null v then [Text (String_js v)] else [])"
  by (simp add: textContent_set_def clear_children_Element createTextNode_def
      origCreateTextNode_def)

text \<open>
  C5, as the code has it. For every enhanced element \<open>E\<close> whose \<open>textContent\<close> property
  was installed by the enhancement step and every string \<open>s\<close>: after assigning
  \<open>E.textContent = s\<close>, reading \<open>E.textContent\<close> returns \<open>s\<close>, and \<open>E\<close> has exactly one
  child, a single text node holding \<open>s\<close>, for every \<open>s\<close>, the empty string included;
  assigning \<open>null\<close> (or \<open>undefined\<close>) removes all existing children with no
  replacement.
\<close>

theorem textContent_roundtrip:
  assumes "''textContent'' \<in> set (props_of E)"
    and "E = Element ps t ats cs"
  shows "textContent_get native (textContent_set E (JStr s)) = s
       \<and> children_of (textContent_set E (JStr s)) = [Text s]
       \<and> children_of (textContent_set E JNull) = []
       \<and> children_of (textContent_set E JUndefined) = []
       \<and> props_of (textContent_set E v) = props_of E"
  using assms by (simp add: textContent_set_children)

theorem textContent_roundtrip_witness:
  "''textContent'' \<in> set (props_of (Element [''id'', ''textContent'', ''innerHTML'', ''outerHTML'']
        ''div'' [] [Text ''old'', Element [] ''b'' [] [Text ''bold'']]))
   \<and> children_of (textContent_set (Element [''id'', ''textContent'', ''innerHTML'', ''outerHTML'']
        ''div'' [] [Text ''old'', Element [] ''b'' [] [Text ''bold'']]) (JStr ''new'')) = [Text ''new'']
   \<and> textContent_get dom_textContent (textContent_set
        (Element [''id'', ''textContent'', ''innerHTML'', ''outerHTML'']
        ''div'' [] [Text ''old'', Element [] ''b'' [] [Text ''bold'']]) (JStr ''new'')) = ''new''"
proof -
  have h: "''textContent'' \<in> set (props_of (Element [''id'', ''textContent'', ''innerHTML'',
        ''outerHTML''] ''div'' [] [Text ''old'', Element [] ''b'' [] [Text ''bold'']]))"
    by simp
  from textContent_roundtrip[OF h refl, of dom_textContent "''new''"] h
  show ?thesis by simp
qed

text \<open>
  Assigning the empty string to the \<open>textContent\<close> of a freshly created element leaves
  it with a child, an empty text node, not with zero children.
\<close>

theorem textContent_empty_counterexample:
  "children_of (textContent_set (createElement dom_textContent ''div'') (JStr ''''))
     \<noteq> []"
  by code_simp

section \<open>innerHTML\<close>

lemma replace_all_append:
  "replace_all c r (xs @ ys) = replace_all c r xs @ replace_all c r ys"
  by (induction xs) auto

lemma escape_text_Cons: "escape_text (x # xs) = spec_escape_char x @ escape_text xs"
  by (simp add: escape_text_def spec_escape_char_def replace_all_append)

lemma escape_text_eq: "escape_text s = concat (map spec_escape_char s)"
proof (induction s)
  case Nil
  show ?case by (simp add: escape_text_def)
next
  case (Cons x xs)
  then show ?case by (simp add: escape_text_Cons)
qed

lemma foldl_append_concat: "foldl (\<lambda>acc x. acc @ f x) acc xs = acc @ concat (map f xs)"
  by (induction xs arbitrary: acc) simp_all

lemma innerHTML_step:
  "(\<lambda>html child.
       if nodeType child = 1 then html @ toString child
       else if nodeType child = 3 then html @ escape_text (or_empty (nodeValue child))
       else html)
   = (\<lambda>html child. html @ spec_child_html toString child)"
proof (rule ext, rule ext)
  fix html child
  show "(if nodeType child = 1 then html @ toString child
         else if nodeType child = 3 then html @ escape_text (or_empty (nodeValue child))
         else html)
        = html @ spec_child_html toString child"
    by (cases child) (simp_all add: escape_text_eq)
qed

lemma innerHTML_concat:
  "innerHTML_get toString (Element ps t ats cs) = concat (map (spec_child_html toString) cs)"
  unfolding innerHTML_get_def children_of.simps innerHTML_step foldl_append_concat by simp

text \<open>
  C6. For every enhanced element \<open>E\<close>, reading \<open>E.innerHTML\<close> yields the concatenation,
  in child order, of each element child's own serialization and each text child's
  value HTML-escaped for exactly the three characters \<open>&\<close>, \<open><\<close> and \<open>>\<close> (the
  ampersand first), with no escaping of the double quote or the single quote; a text
  child with value \<open>a<b>&c\<close> contributes \<open>a&lt;b&gt;&amp;c\<close>.
\<close>

theorem innerHTML_serialization:
  "innerHTML_get toString (Element ps t ats cs) = concat (map (spec_child_html toString) cs)
   \<and> innerHTML_get toString (Element ps t ats [Text ''a<b>&c'']) = ''a&lt;b&gt;&amp;c''
   \<and> escape_text [CHR 0x22, CHR 0x27] = [CHR 0x22, CHR 0x27]"
proof (intro conjI)
  show "innerHTML_get toString (Element ps t ats cs) = concat (map (spec_child_html toString) cs)"
    by (rule innerHTML_concat)
next
  have "innerHTML_get toString (Element ps t ats [Text ''a<b>&c''])
          = concat (map spec_escape_char ''a<b>&c'')"
    by (simp add: innerHTML_concat)
  also have "\<dots> = ''a&lt;b&gt;&amp;c''"
    by (simp add: spec_escape_char_def)
  finally show "innerHTML_get toString (Element ps t ats [Text ''a<b>&c'']) = ''a&lt;b&gt;&amp;c''" .
next
  show "escape_text [CHR 0x22, CHR 0x27] = [CHR 0x22, CHR 0x27]"
    by (simp add: escape_text_eq spec_escape_char_def)
qed

theorem innerHTML_serialization_witness:
  "innerHTML_get (\<lambda>n. ''<b>x</b>'')
     (Element [''id'', ''textContent'', ''innerHTML'', ''outerHTML''] ''div'' []
        [Text ''1 < 2'', Comment ''note'', Element [] ''b'' [] [Text ''x''], Text ''R&D''])
   = ''1 &lt; 2<b>x</b>R&amp;D''"
  using innerHTML_serialization[of "\<lambda>n. ''<b>x</b>''"
          "[''id'', ''textContent'', ''innerHTML'', ''outerHTML'']" "''div''" "[]"
          "[Text ''1 < 2'', Comment ''note'', Element [] ''b'' [] [Text ''x''], Text ''R&D'']"]
  by (simp add: spec_escape_char_def)

section \<open>The adapters\<close>

lemma getAttributeValue_polyfill:
  "getAttributeValue (ANode (Element ps t ats cs)) name = getAttribute (Element ps t ats cs) name
   \<and> (getAttributeValue (ANode (Element ps t ats cs)) name = None
        \<longleftrightarrow> \<not> hasAttribute (Element ps t ats cs) name)"
  by (simp add: hasAttribute_def split: option.splits)

text \<open>
  C3. \<open>getAttributeValue(E, n)\<close> is to return the attribute's string value when the
  attribute is present, the empty string included, and \<open>undefined\<close> exactly when it
  is absent. The polyfill's adapter does; the serializer's adapter answers
  \<open>undefined\<close> for an attribute that is present with the empty string as its value.
\<close>

theorem getAttributeValue_serializer_empty_value:
  "hasAttribute (Element [] ''input'' [(''value'', '''')] []) ''value''
   \<and> getAttribute (Element [] ''input'' [(''value'', '''')] []) ''value'' = Some ''''
   \<and> getAttributeValue_serializer (ANode (Element [] ''input'' [(''value'', '''')] [])) ''value''
       = Inr None
   \<and> getAttributeValue (ANode (Element [] ''input'' [(''value'', '''')] [])) ''value''
       = Some ''''"
  by (simp add: hasAttribute_def getAttribute_def)

lemma foldl_push_filter:
  "foldl (\<lambda>children child. if P child then children @ [child] else children) acc cs
     = acc @ filter P cs"
  by (induction cs arbitrary: acc) simp_all

lemma getChildren_polyfill:
  "getChildren (ANode n) = filter (\<lambda>child. nodeType child = 1) (children_of n)"
  by (simp add: foldl_push_filter)

text \<open>
  C4. \<open>getChildren(N)\<close> is to return exactly the element children of \<open>N\<close> (node type
  1), in their order. The polyfill's adapter does; the serializer's adapter returns
  every child, text nodes included.
\<close>

theorem getChildren_serializer_text_child:
  "getChildren_serializer (ANode (Element [] ''p'' [] [Text ''hi'', Element [] ''b'' [] []]))
     = Inr [Text ''hi'', Element [] ''b'' [] []]
   \<and> nodeType (Text ''hi'') = 3
   \<and> getChildren (ANode (Element [] ''p'' [] [Text ''hi'', Element [] ''b'' [] []]))
     = [Element [] ''b'' [] []]"
  by simp

subsection \<open>removeSubsets\<close>

lemma list_ex_enumerate:
  "list_ex (\<lambda>(j, other). i \<noteq> j \<and> c other node) (enumerate 0 ns)
     = (\<exists>j < length ns. i \<noteq> j \<and> c (ns ! j) node)"
  by (auto simp: list_ex_iff in_set_enumerate_eq)

lemma map_snd_filter_enumerate:
  "map snd (filter (\<lambda>(i, n). Q n) (enumerate k ns)) = filter Q ns"
  by (induction ns arbitrary: k) simp_all

lemma removeSubsets_distinct:
  assumes "distinct ns"
  shows "removeSubsets (Some c) ns = filter (\<lambda>n. \<not> (\<exists>m \<in> set ns. m \<noteq> n \<and> c m n)) ns"
proof -
  have "filter (\<lambda>(i, node). \<not> list_ex (\<lambda>(j, other). i \<noteq> j \<and> c other node) (enumerate 0 ns))
               (enumerate 0 ns)
      = filter (\<lambda>(i, n). \<not> (\<exists>m \<in> set ns. m \<noteq> n \<and> c m n)) (enumerate 0 ns)"
  proof (rule filter_cong[OF refl])
    fix p assume p: "p \<in> set (enumerate 0 ns)"
    obtain i n where pin: "p = (i, n)" by (cases p)
    from p pin have i: "i < length ns" and n: "ns ! i = n"
      by (auto simp: in_set_enumerate_eq)
    have "(\<exists>j < length ns. i \<noteq> j \<and> c (ns ! j) n) = (\<exists>m \<in> set ns. m \<noteq> n \<and> c m n)"
    proof
      assume "\<exists>j < length ns. i \<noteq> j \<and> c (ns ! j) n"
      then obtain j where j: "j < length ns" "i \<noteq> j" "c (ns ! j) n" by blast
      from assms i j n have "ns ! j \<noteq> n" by (auto simp: nth_eq_iff_index_eq)
      with j show "\<exists>m \<in> set ns. m \<noteq> n \<and> c m n" by auto
    next
      assume "\<exists>m \<in> set ns. m \<noteq> n \<and> c m n"
      then obtain m where m: "m \<in> set ns" "m \<noteq> n" "c m n" by blast
      then obtain j where j: "j < length ns" "ns ! j = m" by (auto simp: in_set_conv_nth)
      with m n have "i \<noteq> j" by auto
      with j m show "\<exists>j < length ns. i \<noteq> j \<and> c (ns ! j) n" by auto
    qed
    then show "(case p of (i, node) \<Rightarrow>
                  \<not> list_ex (\<lambda>(j, other). i \<noteq> j \<and> c other node) (enumerate 0 ns))
       = (case p of (i, n) \<Rightarrow> \<not> (\<exists>m \<in> set ns. m \<noteq> n \<and> c m n))"
      by (simp only: pin prod.case list_ex_enumerate)
  qed
  then show ?thesis
    by (simp add: removeSubsets_def map_snd_filter_enumerate)
qed

lemma removeSubsets_no_method: "removeSubsets None ns = ns"
  by (simp add: removeSubsets_def list_ex_iff case_prod_beta)

lemma removeSubsets_serializer_eq: "removeSubsets_serializer = removeSubsets"
  by (rule ext)+ (simp add: removeSubsets_def removeSubsets_serializer_def)

lemma contains_other_iff: "(m \<noteq> n \<and> contains m n) = is_descendant_of n m"
  by (auto simp: contains_def is_descendant_of_def strict_prefix_def)

lemma removeSubsets_drops_descendant:
  assumes "a \<in> set ns" "d \<in> set ns" "is_descendant_of d a"
  shows "d \<notin> set (removeSubsets (Some contains) ns)"
proof
  assume "d \<in> set (removeSubsets (Some contains) ns)"
  then obtain i where i: "(i, d) \<in> set (enumerate 0 ns)"
    and no: "\<not> list_ex (\<lambda>(j, other). i \<noteq> j \<and> contains other d) (enumerate 0 ns)"
    by (auto simp: removeSubsets_def)
  from assms(1) obtain j where j: "j < length ns" "ns ! j = a"
    by (auto simp: in_set_conv_nth)
  from i have "ns ! i = d" by (auto simp: in_set_enumerate_eq)
  with j assms(3) have "i \<noteq> j" by (auto simp: is_descendant_of_def)
  moreover from assms(3) have "contains a d"
    by (simp add: contains_def is_descendant_of_def strict_prefix_def)
  ultimately show False using no j by (auto simp: list_ex_enumerate)
qed

text \<open>
  C8, as the code has it. For every sequence \<open>ns\<close> of pairwise distinct nodes,
  \<open>removeSubsets(ns)\<close> of either adapter returns exactly the nodes of \<open>ns\<close> that are not
  descendants of some other node in \<open>ns\<close>, in their order; when one node of \<open>ns\<close> is an
  ancestor of another node of \<open>ns\<close>, the descendant is eliminated.
\<close>

theorem removeSubsets_distinct_nodes:
  assumes "distinct ns"
  shows "removeSubsets (Some contains) ns = spec_removeSubsets ns
       \<and> removeSubsets_serializer (Some contains) ns = spec_removeSubsets ns
       \<and> (\<forall>a d. a \<in> set ns \<and> d \<in> set ns \<and> is_descendant_of d a
             \<longrightarrow> d \<notin> set (removeSubsets (Some contains) ns)
               \<and> d \<notin> set (removeSubsets_serializer (Some contains) ns))"
proof -
  have eq: "removeSubsets (Some contains) ns = spec_removeSubsets ns"
    using removeSubsets_distinct[OF assms, of contains]
    by (simp add: spec_removeSubsets_def contains_other_iff list_ex_iff)
  have drop: "\<forall>a d. a \<in> set ns \<and> d \<in> set ns \<and> is_descendant_of d a
             \<longrightarrow> d \<notin> set (removeSubsets (Some contains) ns)"
    using removeSubsets_drops_descendant by blast
  from eq drop show ?thesis
    by (simp only: removeSubsets_serializer_eq simp_thms)
qed

theorem removeSubsets_distinct_nodes_witness:
  "distinct [[0], [0, 1], [1::nat]]
   \<and> is_descendant_of [0, 1] [0]
   \<and> removeSubsets (Some contains) [[0], [0, 1], [1]] = [[0], [1]]
   \<and> [0, 1] \<notin> set (removeSubsets (Some contains) [[0], [0, 1], [1]])"
  using removeSubsets_distinct_nodes[of "[[0], [0, 1], [1]]"]
  by (simp add: spec_removeSubsets_def is_descendant_of_def)

text \<open>
  A sequence that holds the same node twice: the node is a descendant of no other
  node, and both of its occurrences are removed.
\<close>

theorem removeSubsets_duplicate_counterexample:
  "removeSubsets (Some contains) [[0], [0]] \<noteq> spec_removeSubsets [[0], [0]]"
  by (simp add: removeSubsets_def spec_removeSubsets_def contains_def is_descendant_of_def
      enumerate_eq_zip)

section \<open>The selector queries\<close>

lemma forEach_loop_from:
  "i \<le> length results \<Longrightarrow>
   forEach_loop results callback i s
     = foldl (\<lambda>s (j, x). callback x j s) s (enumerate i (drop i results))"
proof (induction results callback i s rule: forEach_loop.induct)
  case (1 results callback i s)
  show ?case
  proof (cases "i < length results")
    case True
    then have d: "drop i results = results ! i # drop (Suc i) results"
      by (simp add: Cons_nth_drop_Suc)
    from True 1 show ?thesis
      by (subst forEach_loop.simps) (simp add: d)
  next
    case False
    with 1 show ?thesis by (subst forEach_loop.simps) simp
  qed
qed

text \<open>
  The list returned by the two entry points of the polyfill: the results of the
  engine, with \<open>item\<close> and \<open>forEach\<close> agreeing with indexed access; the empty list of
  the same shape when the engine throws.
\<close>

lemma make_nodeList_shape:
  "elems (make_nodeList results) = results
   \<and> item (make_nodeList results) = Some (results_item results)
   \<and> (\<exists>fe. forEach (make_nodeList results) = Some fe
         \<and> (\<forall>callback s. fe callback s
               = foldl (\<lambda>s (j, x). callback x j s) s (enumerate 0 results)))
   \<and> spec_NodeList_compatible (make_nodeList results)"
  by (simp add: make_nodeList_def spec_NodeList_compatible_def forEach_loop_from[of 0, simplified])

lemma emptyList_shape:
  "elems emptyList = []
   \<and> (\<exists>it. item emptyList = Some it \<and> (\<forall>i. it i = None))
   \<and> (\<exists>fe. forEach emptyList = Some fe \<and> (\<forall>callback s. fe callback s = s))
   \<and> spec_NodeList_compatible emptyList"
  by (simp add: emptyList_def spec_NodeList_compatible_def)

lemma querySelectorAll_polyfill:
  "document_querySelectorAll selectAll selector this console =
     (case selectAll selector (ADocument this) of
        Inr results \<Rightarrow> (make_nodeList results, console)
      | Inl error \<Rightarrow> (emptyList, console @ [(''Error in document.querySelectorAll:'', error)]))"
  "DOMParser_querySelectorAll selectAll selector doc console =
     (case selectAll selector (rootElement doc) of
        Inr results \<Rightarrow> (make_nodeList results, console)
      | Inl error \<Rightarrow> (emptyList, console @ [(''Error in querySelectorAll:'', error)]))"
  by (simp_all add: document_querySelectorAll_def DOMParser_querySelectorAll_def)

text \<open>
  C2. On a selector on which the engine throws, \<open>querySelectorAll\<close> is to return an
  empty NodeList-compatible sequence: zero elements, with indexed access, \<open>item(i)\<close>
  and \<open>forEach\<close>. The \<open>querySelectorAll\<close> that the serializer's parser installs on a
  parsed document returns a plain empty array instead, which has no \<open>item\<close>; the
  one of the polyfill's parser returns the list of the required shape.
\<close>

theorem DOMParserEx_querySelectorAll_lacks_item:
  fixes l l' :: "'s nodeList"
  assumes "selectAll selector (rootElement doc) = Inl err"
    and "l = fst (DOMParserEx_querySelectorAll selectAll selector doc console)"
    and "l' = fst (DOMParser_querySelectorAll selectAll selector doc console)"
  shows "elems l = [] \<and> item l = None \<and> \<not> spec_NodeList_compatible l
       \<and> elems l' = [] \<and> spec_NodeList_compatible l'"
  using assms
  by (simp add: DOMParserEx_querySelectorAll_def DOMParser_querySelectorAll_def plain_array_def
      emptyList_def spec_NodeList_compatible_def)

theorem DOMParserEx_querySelectorAll_lacks_item_witness:
  "(\<lambda>selector root. Inl ''SyntaxError'') ''['' (rootElement (Document [Element [] ''notebook'' [] []]))
     = (Inl ''SyntaxError'' :: string + node list)
   \<and> item (fst (DOMParserEx_querySelectorAll (\<lambda>selector root. Inl ''SyntaxError'') ''[''
               (Document [Element [] ''notebook'' [] []]) []) :: unit nodeList) = None"
  using DOMParserEx_querySelectorAll_lacks_item
          [where ?'s = unit and selectAll = "\<lambda>selector root. Inl ''SyntaxError''"
             and selector = "''[''" and doc = "Document [Element [] ''notebook'' [] []]"
             and err = "''SyntaxError''" and console = "[]", OF refl refl refl]
  by simp

lemma find_append:
  "find P (xs @ ys) = (case find P xs of Some x \<Rightarrow> Some x | None \<Rightarrow> find P ys)"
  by (induction xs) auto

text \<open>
  The three \<open>querySelector\<close> wrappers never throw: they hand on what the engine
  answers and turn a thrown error into one console entry and \<open>null\<close>.
\<close>

lemma querySelector_wrappers:
  "(selectOne selector (ADocument this) = Inr (Some e) \<longrightarrow>
       document_querySelector selectOne selector this console = (Some e, console))
 \<and> (selectOne selector (ADocument this) = Inr None \<longrightarrow>
       document_querySelector selectOne selector this console = (None, console))
 \<and> (selectOne selector (ADocument this) = Inl err \<longrightarrow>
       document_querySelector selectOne selector this console
         = (None, console @ [(''Error in document.querySelector:'', err)]))
 \<and> (selectOne selector (rootElement doc) = Inr (Some e) \<longrightarrow>
       DOMParser_querySelector selectOne selector doc console = (Some e, console)
     \<and> DOMParserEx_querySelector selectOne selector doc console = (Some e, console))
 \<and> (selectOne selector (rootElement doc) = Inr None \<longrightarrow>
       DOMParser_querySelector selectOne selector doc console = (None, console)
     \<and> DOMParserEx_querySelector selectOne selector doc console = (None, console))
 \<and> (selectOne selector (rootElement doc) = Inl err \<longrightarrow>
       DOMParser_querySelector selectOne selector doc console
         = (None, console @ [(''Error in querySelector:'', err)])
     \<and> DOMParserEx_querySelector selectOne selector doc console
         = (None, console @ [(''Error in querySelector:'', err)]))"
  by (simp add: document_querySelector_def DOMParser_querySelector_def
      DOMParserEx_querySelector_def)

lemma findOne_find: "findOne test nodes = find test (concat (map elements_in_order nodes))"
  by (induction test nodes rule: findOne.induct) (auto simp: find_append split: option.splits)

lemma findOne_filter_elements:
  "findOne test (filter (\<lambda>child. nodeType child = 1) nodes) = findOne test nodes"
proof (induction nodes)
  case Nil
  show ?case by simp
next
  case (Cons n ns)
  then show ?case by (cases n) (simp_all split: option.splits)
qed

text \<open>
  With either adapter the engine answers the first match, in document order, among
  the elements strictly below the root it is given.
\<close>

lemma engine_polyfill_root:
  assumes "compile selector = Inr test"
  shows "engine_selectOne (Inr \<circ> getChildren) compile selector root
           = Inr (find test (concat (map elements_in_order (any_childNodes root))))"
proof -
  have "getChildren root = filter (\<lambda>child. nodeType child = 1) (any_childNodes root)"
    by (cases root) (simp_all add: foldl_push_filter)
  then have "findOne test (getChildren root) = findOne test (any_childNodes root)"
    by (simp only: findOne_filter_elements)
  with assms show ?thesis
    by (simp add: engine_selectOne_def findOne_find)
qed

lemma engine_serializer_root:
  assumes "compile selector = Inr test" and "root \<noteq> ANull"
  shows "engine_selectOne getChildren_serializer compile selector root
           = Inr (find test (concat (map elements_in_order (any_childNodes root))))"
  using assms
  by (cases root) (simp_all add: engine_selectOne_def findOne_find)

lemma engine_invalid_selector:
  assumes "compile selector = Inl err"
  shows "engine_selectOne adapter_getChildren compile selector root = Inl (Inl err)"
  using assms by (simp add: engine_selectOne_def)

lemma rootElement_not_null: "rootElement doc \<noteq> ANull"
  by (simp add: rootElement_def split: option.splits)

lemma documentElement_first:
  assumes "documentElement doc = Some root"
  shows "\<exists>ps t ats cs rest. root = Element ps t ats cs
           \<and> concat (map elements_in_order (doc_childNodes doc)) = root # rest"
proof -
  obtain ds where doc: "doc = Document ds" by (cases doc)
  have "find (\<lambda>n. nodeType n = 1) ds = Some root \<Longrightarrow>
        \<exists>ps t ats cs rest. root = Element ps t ats cs
           \<and> concat (map elements_in_order ds) = root # rest"
  proof (induction ds)
    case Nil
    then show ?case by simp
  next
    case (Cons d ds)
    then show ?case by (cases d) auto
  qed
  with assms doc show ?thesis by simp
qed

text \<open>
  The global document's \<open>querySelector\<close> passes the document itself, so every element
  of the document is a candidate: it returns the first match of the whole tree.
\<close>

lemma document_querySelector_first_match:
  assumes "compile selector = Inr test"
  shows "document_querySelector (engine_selectOne (Inr \<circ> getChildren) compile)
           selector this console
         = (spec_first_match test (ADocument this), console)"
proof -
  have "engine_selectOne (Inr \<circ> getChildren) compile selector (ADocument this)
          = Inr (spec_first_match test (ADocument this))"
    using engine_polyfill_root[where compile = compile and selector = selector
            and test = test and root = "ADocument this", OF assms]
    by (simp add: spec_first_match_def)
  then show ?thesis
    by (cases "spec_first_match test (ADocument this)")
       (simp_all add: document_querySelector_def)
qed

text \<open>
  C7. \<open>querySelector\<close> is to return the first element of the queried tree, in
  document order, that matches the selector. The \<open>querySelector\<close> that both parsers
  install on a parsed document passes the document element as the single root of the
  query, and the engine tests only what lies below its root: when the document
  element is the element that matches (and nothing below it does), \<open>null\<close> is returned
  although an element of the queried tree matches. The global document's
  \<open>querySelector\<close>, which passes the document itself, returns the document element
  on the same tree.
\<close>

theorem parsed_document_root_element_not_matched:
  assumes "compile selector = Inr test"
    and "documentElement doc = Some root"
    and "test root"
    and "find test (concat (map elements_in_order (children_of root))) = None"
  shows "spec_first_match test (rootElement doc) = Some root
       \<and> DOMParser_querySelector (engine_selectOne (Inr \<circ> getChildren) compile)
             selector doc console = (None, console)
       \<and> DOMParserEx_querySelector (engine_selectOne getChildren_serializer compile)
             selector doc console = (None, console)
       \<and> document_querySelector (engine_selectOne (Inr \<circ> getChildren) compile)
             selector doc console = (Some root, console)"
proof -
  from documentElement_first[OF assms(2)] obtain ps t ats cs rest
    where root: "root = Element ps t ats cs"
      and all: "concat (map elements_in_order (doc_childNodes doc)) = root # rest"
    by blast
  have re: "rootElement doc = ANode root"
    using assms(2) by (simp add: rootElement_def)
  have spec: "spec_first_match test (rootElement doc) = Some root"
    using assms(3) by (simp add: spec_first_match_def re root)
  have p: "engine_selectOne (Inr \<circ> getChildren) compile selector (rootElement doc) = Inr None"
    using engine_polyfill_root[where compile = compile and selector = selector
            and test = test and root = "rootElement doc", OF assms(1)] assms(4)
    by (simp add: re)
  have s: "engine_selectOne getChildren_serializer compile selector (rootElement doc) = Inr None"
    using engine_serializer_root[where compile = compile and selector = selector
            and test = test and root = "rootElement doc", OF assms(1) rootElement_not_null]
          assms(4)
    by (simp add: re)
  have g: "engine_selectOne (Inr \<circ> getChildren) compile selector (ADocument doc)
             = Inr (Some root)"
    using engine_polyfill_root[where compile = compile and selector = selector
            and test = test and root = "ADocument doc", OF assms(1)] assms(3)
    by (simp add: all)
  from spec p s g show ?thesis
    by (simp add: DOMParser_querySelector_def DOMParserEx_querySelector_def
        document_querySelector_def)
qed

theorem parsed_document_root_element_not_matched_witness:
  "DOMParser_querySelector
     (engine_selectOne (Inr \<circ> getChildren) (\<lambda>s. Inr (\<lambda>n. getName (ANode n) = s)))
     ''notebook''
     (Document [Comment ''saved'',
                Element [] ''notebook'' [(''theme'', ''air'')]
                  [Text ''  '', Element [] ''script'' [(''type'', ''module'')] [Text ''1 + 1'']]])
     ([] :: (string + jserror) console)
   = (None, [])
   \<and> DOMParserEx_querySelector
     (engine_selectOne getChildren_serializer (\<lambda>s. Inr (\<lambda>n. getName (ANode n) = s)))
     ''notebook''
     (Document [Comment ''saved'',
                Element [] ''notebook'' [(''theme'', ''air'')]
                  [Text ''  '', Element [] ''script'' [(''type'', ''module'')] [Text ''1 + 1'']]])
     ([] :: (string + jserror) console)
   = (None, [])
   \<and> spec_first_match (\<lambda>n. getName (ANode n) = ''notebook'')
        (rootElement (Document [Comment ''saved'',
                Element [] ''notebook'' [(''theme'', ''air'')]
                  [Text ''  '', Element [] ''script'' [(''type'', ''module'')] [Text ''1 + 1'']]]))
   = Some (Element [] ''notebook'' [(''theme'', ''air'')]
                  [Text ''  '', Element [] ''script'' [(''type'', ''module'')] [Text ''1 + 1'']])"
proof -
  let ?root = "Element [] ''notebook'' [(''theme'', ''air'')]
                  [Text ''  '', Element [] ''script'' [(''type'', ''module'')] [Text ''1 + 1'']]"
  let ?doc = "Document [Comment ''saved'', ?root]"
  let ?test = "\<lambda>n. getName (ANode n) = ''notebook''"
  let ?compile = "\<lambda>s. Inr (\<lambda>n. getName (ANode n) = s) :: string + (node \<Rightarrow> bool)"
  have h1: "?compile ''notebook'' = Inr ?test" by simp
  have h2: "documentElement ?doc = Some ?root" by simp
  have h3: "?test ?root" by code_simp
  have h4: "find ?test (concat (map elements_in_order (children_of ?root))) = None"
    by code_simp
  from parsed_document_root_element_not_matched
         [where compile = ?compile and selector = "''notebook''" and test = ?test
            and doc = ?doc and root = ?root and console = "[]", OF h1 h2 h3 h4]
  show ?thesis by simp
qed

section \<open>Deserializing a notebook\<close>

lemma str_includes_sublist: "str_includes content search = sublist search content"
  by (induction content) (auto simp: sublist_Cons_right)

text \<open>
  C9. For every input byte sequence whose decoded text does not contain both the
  substring \<open><notebook\<close> and the substring \<open><!doctype html>\<close>,
  \<open>deserializeNotebook\<close> resolves to \<open>undefined\<close>: it neither returns a notebook nor
  raises an error.
\<close>

theorem deserializeNotebook_other_format:
  assumes "\<not> (sublist ''<notebook'' (decode content)
              \<and> sublist ''<!doctype html>'' (decode content))"
  shows "deserializeNotebook decode deserialize content = Resolved None"
proof -
  from assms have "\<not> isObservableKitFormat (decode content)"
    by (simp add: isObservableKitFormat_def str_includes_sublist)
  then show ?thesis
    by (simp add: deserializeNotebook_def Let_def)
qed

theorem deserializeNotebook_other_format_witness:
  "\<not> (sublist ''<notebook'' (id ''<!DOCTYPE html><notebook></notebook>'')
       \<and> sublist ''<!doctype html>'' (id ''<!DOCTYPE html><notebook></notebook>''))
   \<and> deserializeNotebook id (\<lambda>s. Inl ''unused'') ''<!DOCTYPE html><notebook></notebook>''
       = (Resolved None :: (string, notebookData option) promise)"
proof -
  have h: "\<not> (sublist ''<notebook'' (id ''<!DOCTYPE html><notebook></notebook>'')
       \<and> sublist ''<!doctype html>'' (id ''<!DOCTYPE html><notebook></notebook>''))"
    unfolding str_includes_sublist[symmetric] by code_simp
  from deserializeNotebook_other_format[of id "''<!DOCTYPE html><notebook></notebook>''", OF h] h
  show ?thesis by simp
qed

lemma foldl_push_map: "foldl (\<lambda>cells c. cells @ [f c]) acc cs = acc @ map f cs"
  by (induction cs arbitrary: acc) simp_all

lemma cell_to_cellData_pinned:
  "cell_pinned (cd_metadata (cell_to_cellData c))
     = (if cell_pinned c = JUndefined \<or> cell_pinned c = JNull then JBool False
        else cell_pinned c)"
  by (simp add: cell_to_cellData_def Let_def)

text \<open>
  C10. For every notebook accepted by deserialization, every cell of the resulting
  notebook data carries metadata whose \<open>pinned\<close> field is defined: a \<open>pinned\<close> that is
  \<open>undefined\<close> or \<open>null\<close> in the source cell is normalized to \<open>false\<close>, any other
  value is kept, so no produced cell has an undefined or null \<open>pinned\<close>.
\<close>

theorem deserialized_cells_pinned_defined:
  assumes "deserializeObservableKitNotebook deserialize content = Inr d"
  shows "(\<forall>cd \<in> set (nd_cells d).
            cell_pinned (cd_metadata cd) \<noteq> JUndefined \<and> cell_pinned (cd_metadata cd) \<noteq> JNull)
       \<and> (\<exists>nb. deserialize content = Inr nb
             \<and> map (\<lambda>cd. cell_pinned (cd_metadata cd)) (nd_cells d)
                = map (\<lambda>c. if cell_pinned c = JUndefined \<or> cell_pinned c = JNull
                            then JBool False else cell_pinned c) (nb_cells nb))"
proof -
  from assms obtain nb where nb: "deserialize content = Inr nb"
    and d: "d = \<lparr> nd_cells = map cell_to_cellData (nb_cells nb), nd_metadata = nb \<rparr>"
    by (auto simp: deserializeObservableKitNotebook_def foldl_push_map split: sum.splits)
  have "\<forall>cd \<in> set (nd_cells d).
            cell_pinned (cd_metadata cd) \<noteq> JUndefined \<and> cell_pinned (cd_metadata cd) \<noteq> JNull"
    unfolding d by (auto simp: cell_to_cellData_pinned)
  moreover have "map (\<lambda>cd. cell_pinned (cd_metadata cd)) (nd_cells d)
                = map (\<lambda>c. if cell_pinned c = JUndefined \<or> cell_pinned c = JNull
                            then JBool False else cell_pinned c) (nb_cells nb)"
    unfolding d by (simp add: cell_to_cellData_pinned)
  ultimately show ?thesis using nb by blast
qed

theorem deserialized_cells_pinned_defined_witness:
  "deserializeObservableKitNotebook
     (\<lambda>s. Inr \<lparr> nb_title = ''Demo'', nb_theme = ''air'', nb_readOnly = False,
                nb_cells = [\<lparr> cell_id = 1, cell_value = ''# Title'', cell_mode = ''md'',
                               cell_pinned = JUndefined \<rparr>,
                            \<lparr> cell_id = 2, cell_value = ''1 + 1'', cell_mode = ''js'',
                               cell_pinned = JBool True \<rparr>] \<rparr>)
     ''<!doctype html><notebook></notebook>''
   = (Inr \<lparr> nd_cells =
              [\<lparr> cd_kind = Markup, cd_value = ''# Title'', cd_languageId = ''markdown'',
                  cd_metadata = \<lparr> cell_id = 1, cell_value = ''# Title'', cell_mode = ''md'',
                                   cell_pinned = JBool False \<rparr> \<rparr>,
               \<lparr> cd_kind = Code, cd_value = ''1 + 1'', cd_languageId = ''javascript'',
                  cd_metadata = \<lparr> cell_id = 2, cell_value = ''1 + 1'', cell_mode = ''js'',
                                   cell_pinned = JBool True \<rparr> \<rparr>],
            nd_metadata =
              \<lparr> nb_title = ''Demo'', nb_theme = ''air'', nb_readOnly = False,
                nb_cells = [\<lparr> cell_id = 1, cell_value = ''# Title'', cell_mode = ''md'',
                               cell_pinned = JUndefined \<rparr>,
                            \<lparr> cell_id = 2, cell_value = ''1 + 1'', cell_mode = ''js'',
                               cell_pinned = JBool True \<rparr>] \<rparr> \<rparr> :: string + notebookData)
   \<and> cell_pinned (cd_metadata
          \<lparr> cd_kind = Markup, cd_value = ''# Title'', cd_languageId = ''markdown'',
            cd_metadata = \<lparr> cell_id = 1, cell_value = ''# Title'', cell_mode = ''md'',
                             cell_pinned = JBool False \<rparr> \<rparr>) \<noteq> JUndefined"
proof -
  have h: "deserializeObservableKitNotebook
     (\<lambda>s. Inr \<lparr> nb_title = ''Demo'', nb_theme = ''air'', nb_readOnly = False,
                nb_cells = [\<lparr> cell_id = 1, cell_value = ''# Title'', cell_mode = ''md'',
                               cell_pinned = JUndefined \<rparr>,
                            \<lparr> cell_id = 2, cell_value = ''1 + 1'', cell_mode = ''js'',
                               cell_pinned = JBool True \<rparr>] \<rparr>)
     ''<!doctype html><notebook></notebook>''
   = (Inr \<lparr> nd_cells =
              [\<lparr> cd_kind = Markup, cd_value = ''# Title'', cd_languageId = ''markdown'',
                  cd_metadata = \<lparr> cell_id = 1, cell_value = ''# Title'', cell_mode = ''md'',
                                   cell_pinned = JBool False \<rparr> \<rparr>,
               \<lparr> cd_kind = Code, cd_value = ''1 + 1'', cd_languageId = ''javascript'',
                  cd_metadata = \<lparr> cell_id = 2, cell_value = ''1 + 1'', cell_mode = ''js'',
                                   cell_pinned = JBool True \<rparr> \<rparr>],
            nd_metadata =
              \<lparr> nb_title = ''Demo'', nb_theme = ''air'', nb_readOnly = False,
                nb_cells = [\<lparr> cell_id = 1, cell_value = ''# Title'', cell_mode = ''md'',
                               cell_pinned = JUndefined \<rparr>,
                            \<lparr> cell_id = 2, cell_value = ''1 + 1'', cell_mode = ''js'',
                               cell_pinned = JBool True \<rparr>] \<rparr> \<rparr> :: string + notebookData)"
    by (simp add: deserializeObservableKitNotebook_def cell_to_cellData_def
        OBSERVABLE_TO_VSCODE_MODE_MAP_def Let_def)
  from deserialized_cells_pinned_defined[OF h] h show ?thesis
    by simp
qed

end
